theory Spec2Isabelle
  imports Complex_Main "HOL-Library.Word"
begin

section \<open>The convert facility (nytl/convert.hpp)\<close>

text \<open>
  The header is template code: what a call does is fixed in two stages. Instantiating a
  template for given types either is ill-formed or yields a function; that function, run
  on a value, either returns a value, has undefined behaviour, or does not return. Both
  stages are modelled: a template becomes a function from its type arguments to
  \<open>failure + (val \<Rightarrow> ...)\<close>, and the function it yields returns an \<open>option\<close> (\<open>None\<close>:
  the call does not return) of \<open>failure + val\<close>.
\<close>

subsection \<open>Types, values, failures\<close>

text \<open>
  The C++ types the header is instantiated with: \<open>void\<close>, two arithmetic types, class
  types of the program (by name; they can be value-initialised, and they declare no
  assignment operator of their own, so they have the implicit copy and move assignment
  only), class templates with one element type that are resizable sequence containers
  with the interface of the standard ones (\<open>std::vector\<close>, \<open>std::list\<close>, a container of
  the program), and \<open>std::array<E, I>\<close>.
\<close>

datatype ty = TVoid | TInt | TDouble | TClass string | TSeq string ty | TArray ty nat

text \<open>
  Values: an \<open>int\<close> is a 32-bit word, read as a signed number; a \<open>double\<close> is given by
  the number it denotes (every \<open>int\<close> is exactly representable as a \<open>double\<close>); an
  object of class type is given by its members, a container or array by its elements in
  iteration order.
\<close>

datatype val = IntV "32 word" | DoubleV real | ObjV "val list" | ElemsV "val list"

text \<open>
  \<open>CompileError\<close>: the instantiation is ill-formed. \<open>NoReturn\<close>: control flows off the end
  of a function that returns a value (undefined behaviour). \<open>OutOfRange\<close>: an element is
  accessed outside its container (undefined behaviour). \<open>Unrepresentable\<close>: a floating
  value is cast to an integer type that cannot hold its truncation (undefined behaviour).
\<close>

datatype failure = CompileError | NoReturn | OutOfRange | Unrepresentable

type_synonym 'a result = "failure + 'a"
type_synonym 'a run = "'a result option"
type_synonym conv = "val \<Rightarrow> val run"

text \<open>
  The conversions of the language and of the program's classes are not part of the header:
  they are a parameter. \<open>sc To From = Some c\<close> says that \<open>static_cast<To>(e)\<close> is
  well-formed for \<open>e\<close> of type \<open>From\<close> and runs as \<open>c\<close>; \<open>None\<close> says it is ill-formed.
  The argument order is that of \<open>static_cast\<close>: target first. What a cast does is a
  function of the source value alone (the source is handed over as \<open>const From&\<close>), and
  the table does not tell the rvalue \<open>std::declval<From>()\<close> of the tests from the const
  lvalue \<open>other\<close> that is cast.
\<close>

type_synonym casts = "ty \<Rightarrow> ty \<Rightarrow> conv option"

text \<open>A cast that returns, with the value a function gives.\<close>

definition returns :: "(val \<Rightarrow> val) \<Rightarrow> conv" where
  "returns f v = Some (Inr (f v))"

fun elems :: "val \<Rightarrow> val list" where
  "elems (ElemsV xs) = xs"
| "elems v = []"

text \<open>Value-initialisation \<open>T {}\<close>, as in \<open>std::array<T, I> ret {}\<close> and in \<open>resize\<close>.\<close>

fun value_init :: "ty \<Rightarrow> val" where
  "value_init TVoid = ObjV []"
| "value_init TInt = IntV 0"
| "value_init TDouble = DoubleV 0"
| "value_init (TClass c) = ObjV []"
| "value_init (TSeq c E) = ElemsV []"
| "value_init (TArray E I) = ElemsV (replicate I (value_init E))"

text \<open>\<open>xs.resize(n)\<close> on a sequence container with element type \<open>E\<close>.\<close>

definition resize :: "ty \<Rightarrow> val list \<Rightarrow> nat \<Rightarrow> val list" where
  "resize E xs n = take n xs @ replicate (n - length xs) (value_init E)"

definition invoke :: "conv result \<Rightarrow> val \<Rightarrow> val run" where
  "invoke inst v = (case inst of Inl e \<Rightarrow> Some (Inl e) | Inr c \<Rightarrow> c v)"

subsection \<open>Expression validity (lines 100-113, 133-134)\<close>

text \<open>
  Modelled from the spec: \<open>nytl::void_t\<close> comes from \<open>nytl/tmpUtil.hpp\<close>, which is not
  among the sources. It is the alias the detection idiom of \<open>ExpressionValidT\<close> needs:
  \<open>void\<close> for every well-formed argument list (the partial specialisation
  \<open>ExpressionValidT<E, void_t<E<T...>>, T...>\<close> is meant to match
  \<open>ExpressionValidT<E, void, T...>\<close>).
\<close>

definition void_t :: "ty list \<Rightarrow> ty" where
  "void_t Ts = TVoid"

definition is_same :: "ty \<Rightarrow> ty \<Rightarrow> bool" where
  "is_same A B = (A = B)"

text \<open>
  An alias template with two type parameters is a function \<open>ty \<Rightarrow> ty \<Rightarrow> ty option\<close>:
  \<open>None\<close> when substitution fails. \<open>expressionValid<E, A, B>\<close> is
  \<open>ExpressionValidT<E, void, A, B>::value\<close>: the partial specialisation (true) is chosen
  when \<open>E<A, B>\<close> is well-formed and \<open>void_t<E<A, B>>\<close> is \<open>void\<close>; otherwise the primary
  template (false). The type arguments are handed to \<open>E\<close> in the order they are written.
\<close>

definition expressionValid :: "(ty \<Rightarrow> ty \<Rightarrow> ty option) \<Rightarrow> ty \<Rightarrow> ty \<Rightarrow> bool" where
  "expressionValid E A B = (case E A B of None \<Rightarrow> False | Some X \<Rightarrow> void_t [X] = TVoid)"

text \<open>
  \<open>template<typename To, typename From> using ValidStaticCast =
  decltype(static_cast<To>(std::declval<From>()))\<close>: the first parameter is the target.
\<close>

definition ValidStaticCast :: "casts \<Rightarrow> ty \<Rightarrow> ty \<Rightarrow> ty option" where
  "ValidStaticCast sc To From = (case sc To From of None \<Rightarrow> None | Some c \<Rightarrow> Some To)"

text \<open>
  The validity condition of \<open>containerCast<T>(const U&)\<close> (its defaulted template
  argument, lines 83-88): \<open>T {}\<close>, \<open>T::resize\<close> taking \<open>U::size()\<close>, \<open>end()\<close> and \<open>begin()\<close>
  on both, and the assignment \<open>*t.begin() = convert(*u.begin())\<close>. The right-hand side of
  that assignment is the deferred overload of \<open>convert\<close>: an \<open>AutoCastable\<close>, whose
  conversion operator is declared for every target type. So the source's element type is
  not looked at, and the assignment is well-formed when overload resolution among the
  assignment operators of the target's element type \<open>E\<close> finds one best candidate for an
  operand that converts to every parameter type. \<open>deferred_assignable E\<close> says it does:

  \<^item> a class type of the program and a \<open>std::array\<close> have the copy and the move
    assignment operator only; both are reached through the one conversion to \<open>E\<close>, and
    the move assignment is the better match;
  \<^item> for an arithmetic type the operand of the assignment is converted to the type of
    the left side;
  \<^item> a sequence container declares \<open>operator=(std::initializer_list<value_type>)\<close> as
    well, reached through a conversion of its own that is neither better nor worse: the
    assignment is ambiguous, and the template is not viable.
\<close>

fun deferred_assignable :: "ty \<Rightarrow> bool" where
  "deferred_assignable TVoid = False"
| "deferred_assignable TInt = True"
| "deferred_assignable TDouble = True"
| "deferred_assignable (TClass c) = True"
| "deferred_assignable (TSeq c E) = False"
| "deferred_assignable (TArray E I) = True"

fun has_resize :: "ty \<Rightarrow> bool" where
  "has_resize (TSeq c E) = True"
| "has_resize T = False"

fun value_type :: "ty \<Rightarrow> ty option" where
  "value_type (TSeq c E) = Some E"
| "value_type (TArray E I) = Some E"
| "value_type T = None"

definition containerCast_valid :: "ty \<Rightarrow> ty \<Rightarrow> bool" where
  "containerCast_valid T U =
     (has_resize T \<and>
      (case value_type T of None \<Rightarrow> False | Some TE \<Rightarrow> deferred_assignable TE) \<and>
      value_type U \<noteq> None)"

text \<open>
  \<open>template<typename To, typename From> using ValidContainerCast =
  decltype(containerCast<To>(std::declval<From>()))\<close>.
\<close>

definition ValidContainerCast :: "ty \<Rightarrow> ty \<Rightarrow> ty option" where
  "ValidContainerCast To From = (if containerCast_valid To From then Some To else None)"

text \<open>
  A call \<open>convert<T>(e)\<close> with one explicit template argument, \<open>e\<close> an lvalue of type \<open>U\<close>,
  names both function templates called \<open>convert\<close>: the explicit-target one
  (\<open>template<typename T, typename O> convert(const O&)\<close>, lines 32-36, with \<open>O\<close> deduced
  as \<open>U\<close>) and the deferred one (\<open>template<typename O> convert(const O&)\<close>, lines 59-63,
  with \<open>O\<close> given as \<open>T\<close>, so its parameter is \<open>const T&\<close>). For \<open>U\<close> other than \<open>T\<close> the
  first binds \<open>e\<close> directly and the second, where it is viable at all, needs a conversion:
  the explicit-target overload is chosen. For \<open>U = T\<close> both bind \<open>e\<close> directly, both are
  templates with the one parameter type \<open>const O&\<close>, and neither is more specialised (a
  template argument given explicitly takes no part in the partial ordering of function
  templates): the call is ambiguous, which is ill-formed.
\<close>

definition explicit_overload_chosen :: "ty \<Rightarrow> ty \<Rightarrow> bool" where
  "explicit_overload_chosen T U = (U \<noteq> T)"

text \<open>
  The validity condition of \<open>arrayCast<T>(const std::array<U, I>&)\<close> (lines 69-70):
  the assignment \<open>declval<std::array<T, I>>()[0] = convert<T>(declval<std::array<U, I>>()[0])\<close>.
  The call has to resolve; its return type is that of \<open>Converter<U, T>::call\<close>, declared
  as \<open>T\<close> for all types, so nothing else is asked of \<open>U\<close> and \<open>T\<close> (element types are
  taken to be assignable).
\<close>

definition arrayCast_valid :: "ty \<Rightarrow> ty \<Rightarrow> nat \<Rightarrow> bool" where
  "arrayCast_valid T U I = explicit_overload_chosen T U"

text \<open>
  \<open>template<typename From, typename To, std::size_t I> using ValidArrayCast =
  void_t<decltype(arrayCast<To>(std::declval<std::array<From, I>>()))>\<close>.
\<close>

definition ValidArrayCast :: "ty \<Rightarrow> ty \<Rightarrow> nat \<Rightarrow> ty option" where
  "ValidArrayCast From To I =
     (if arrayCast_valid To From I then Some (void_t [TArray To I]) else None)"

text \<open>
  Which specialisation of \<open>Converter<X, Y>\<close> (third argument defaulted to \<open>void\<close>) is
  instantiated. \<open>Converter<std::array<From, I>, std::array<To, I>, ValidArrayCast<From, To, I>>\<close>
  (lines 136-139) matches when both types are arrays of one length and the third argument
  is well-formed and \<open>void\<close>; naming the array types, it is then taken as the one chosen.
  Otherwise \<open>Converter<From, To>\<close> (lines 116-130) is.
\<close>

fun array_specialization :: "ty \<Rightarrow> ty \<Rightarrow> (ty \<times> ty \<times> nat) option" where
  "array_specialization (TArray From I) (TArray To J) =
     (if I = J \<and> ValidArrayCast From To I = Some TVoid then Some (From, To, I) else None)"
| "array_specialization X Y = None"

subsection \<open>The two loops (lines 73-76 and 91-97)\<close>

definition on_elems :: "(val list \<Rightarrow> val list run) \<Rightarrow> conv" where
  "on_elems body v =
     (case body (elems v) of
        None \<Rightarrow> None
      | Some (Inl e) \<Rightarrow> Some (Inl e)
      | Some (Inr r) \<Rightarrow> Some (Inr (ElemsV r)))"

text \<open>
  \<open>for(auto i = 0u; i < I; ++i) ret[i] = convert<T>(array[i]);\<close> The counter is an
  \<open>unsigned int\<close> (32 bits, wrapping), \<open>I\<close> a \<open>std::size_t\<close>: in \<open>i < I\<close> the counter is
  widened. The loop need not end, so it is a partial function; it hands back the source
  array along with \<open>ret\<close>, so that what it does to the source can be stated.
\<close>

partial_function (option) arrayCast_loop ::
  "conv \<Rightarrow> nat \<Rightarrow> val list \<Rightarrow> val list \<Rightarrow> 32 word \<Rightarrow> (val list \<times> val list) run"
where
  "arrayCast_loop conv I array ret i =
     (if unat i < I then
        (if unat i < length array \<and> unat i < length ret then
           (case conv (array ! unat i) of
              None \<Rightarrow> None
            | Some (Inl e) \<Rightarrow> Some (Inl e)
            | Some (Inr y) \<Rightarrow> arrayCast_loop conv I array (ret[unat i := y]) (i + 1))
         else Some (Inl OutOfRange))
      else Some (Inr (array, ret)))"

declare arrayCast_loop.simps [code]

text \<open>The body of \<open>arrayCast\<close>, given the instantiated \<open>convert<T>\<close> on elements.\<close>

definition arrayCast_body :: "conv \<Rightarrow> ty \<Rightarrow> nat \<Rightarrow> val list \<Rightarrow> val list run" where
  "arrayCast_body conv T I array =
     (case arrayCast_loop conv I array (replicate I (value_init T)) 0 of
        None \<Rightarrow> None
      | Some (Inl e) \<Rightarrow> Some (Inl e)
      | Some (Inr (array', ret)) \<Rightarrow> Some (Inr ret))"

text \<open>
  \<open>auto f = con.begin(); auto t = ret.begin();
  while(f != con.end()) *(t++) = convert(*(f++));\<close> Iterators are positions; an iterator
  dereferenced at or past the end is undefined behaviour.
\<close>

function containerCast_loop ::
  "conv \<Rightarrow> val list \<Rightarrow> val list \<Rightarrow> nat \<Rightarrow> nat \<Rightarrow> (val list \<times> val list) run"
where
  "containerCast_loop conv con ret f t =
     (if f \<noteq> length con then
        (if f < length con \<and> t < length ret then
           (case conv (con ! f) of
              None \<Rightarrow> None
            | Some (Inl e) \<Rightarrow> Some (Inl e)
            | Some (Inr y) \<Rightarrow> containerCast_loop conv con (ret[t := y]) (f + 1) (t + 1))
         else Some (Inl OutOfRange))
      else Some (Inr (con, ret)))"
  by pat_completeness auto
termination
  by (relation "measure (\<lambda>(conv, con, ret, f, t). length con - f)") auto

declare containerCast_loop.simps [simp del]

text \<open>
  The body of \<open>containerCast\<close>: \<open>T ret {}; ret.resize(con.size());\<close>, the loop,
  \<open>return ret;\<close>, given the conversion of one element.
\<close>

definition containerCast_body :: "conv \<Rightarrow> ty \<Rightarrow> val list \<Rightarrow> val list run" where
  "containerCast_body conv E con =
     (case containerCast_loop conv con (resize E [] (length con)) 0 0 of
        None \<Rightarrow> None
      | Some (Inl e) \<Rightarrow> Some (Inl e)
      | Some (Inr (con', ret)) \<Rightarrow> Some (Inr ret))"

subsection \<open>Converter, arrayCast, containerCast, convert (lines 32-36, 69-98, 116-139)\<close>

text \<open>
  The templates call each other, so they are one recursive definition over the types.

  \<^item> \<open>Converter_call sc From To\<close> is \<open>Converter<From, To>::call\<close>. In the general
    specialisation the two tests are written \<open>expressionValid<ValidStaticCast, From, To>\<close>
    and \<open>expressionValid<ValidContainerCast, From, To>\<close>, and the arguments are passed on in
    that order. The second test names the type of \<open>containerCast<From>\<close> on a \<open>To\<close>;
    \<open>containerCast\<close> is declared with a deduced return type (\<open>auto\<close>), so where its
    validity condition holds its body is instantiated for the test, and with it the
    conversion of the elements: what is ill-formed in there is an error of the program,
    not a failed test. The last branch is
    \<open>static_assert(std::is_same<void_t<From>, void>::value, "Invalid conversion!")\<close>
    and no \<open>return\<close>.
  \<^item> \<open>arrayCast sc T U I\<close> is \<open>arrayCast<T>\<close> on a \<open>std::array<U, I>\<close>.
  \<^item> \<open>containerCast sc T U\<close> is \<open>containerCast<T>\<close> on a \<open>U\<close>. The assignment
    \<open>*(t++) = convert(*(f++))\<close> converts the \<open>AutoCastable\<close> to the element type \<open>TE\<close> of
    \<open>T\<close>; its conversion operator is \<open>convert<TE, UE>(*object_)\<close>, both template arguments
    given.
  \<^item> \<open>convert sc T O'\<close> is the explicit-target overload \<open>convert<T, O>\<close>.
  \<^item> \<open>call_convert sc T U\<close> is the call \<open>convert<T>(e)\<close> for \<open>e\<close> of type \<open>U\<close>.
\<close>

function Converter_call :: "casts \<Rightarrow> ty \<Rightarrow> ty \<Rightarrow> conv result"
  and arrayCast :: "casts \<Rightarrow> ty \<Rightarrow> ty \<Rightarrow> nat \<Rightarrow> conv result"
  and containerCast :: "casts \<Rightarrow> ty \<Rightarrow> ty \<Rightarrow> conv result"
  and convert :: "casts \<Rightarrow> ty \<Rightarrow> ty \<Rightarrow> conv result"
  and call_convert :: "casts \<Rightarrow> ty \<Rightarrow> ty \<Rightarrow> conv result"
where
  "Converter_call sc From To =
     (case array_specialization From To of
        Some (F, T, I) \<Rightarrow> arrayCast sc T F I
      | None \<Rightarrow>
          (if expressionValid (ValidStaticCast sc) From To then
             (case sc To From of
                Some c \<Rightarrow> Inr c
              | None \<Rightarrow> Inl CompileError)
           else if expressionValid ValidContainerCast From To then
             (case containerCast sc From To of
                Inl e \<Rightarrow> Inl e
              | Inr tested \<Rightarrow> containerCast sc To From)
           else if is_same (void_t [From]) TVoid then
             Inr (\<lambda>other. Some (Inl NoReturn))
           else Inl CompileError))"
| "arrayCast sc T U I =
     (if arrayCast_valid T U I then
        (case call_convert sc T U of
           Inl e \<Rightarrow> Inl e
         | Inr conv \<Rightarrow> Inr (on_elems (arrayCast_body conv T I)))
      else Inl CompileError)"
| "containerCast sc T U =
     (if containerCast_valid T U then
        (case (value_type T, value_type U) of
           (Some TE, Some UE) \<Rightarrow>
             (case convert sc TE UE of
                Inl e \<Rightarrow> Inl e
              | Inr conv \<Rightarrow> Inr (on_elems (containerCast_body conv TE)))
         | _ \<Rightarrow> Inl CompileError)
      else Inl CompileError)"
| "convert sc T O' = Converter_call sc O' T"
| "call_convert sc T U =
     (if explicit_overload_chosen T U then convert sc T U else Inl CompileError)"
  by pat_completeness auto
termination
proof (relation "measure (\<lambda>x. case x of
     Inl (Inl (sc, From, To)) \<Rightarrow> 5 * (size From + size To) + 1
   | Inl (Inr (sc, T, U, I)) \<Rightarrow> 5 * (size T + size U) + 4
   | Inr (Inl (sc, T, U)) \<Rightarrow> 5 * (size T + size U)
   | Inr (Inr (Inl (sc, T, O'))) \<Rightarrow> 5 * (size T + size O') + 2
   | Inr (Inr (Inr (sc, T, U))) \<Rightarrow> 5 * (size T + size U) + 3)", goal_cases)
  case (4 sc From To x2 x y xa ya)
  then have "array_specialization From To = Some (x, xa, ya)"
    by simp
  then have "size x < size From \<and> size xa < size To"
    by (cases "(From, To)" rule: array_specialization.cases) (auto split: if_splits)
  then show ?case
    by simp
next
  case (6 sc T U x y x2 x2a)
  then have "value_type T = Some x2" and "value_type U = Some x2a"
    by simp_all
  then have "size x2 < size T" and "size x2a < size U"
    by (cases T rule: value_type.cases; cases U rule: value_type.cases; simp)+
  then show ?case
    by simp
qed simp_all

declare Converter_call.simps [simp del] arrayCast.simps [simp del] containerCast.simps [simp del]
  convert.simps [simp del] call_convert.simps [simp del]

subsection \<open>The deferred overload and AutoCastable (lines 44-48, 59-63)\<close>

text \<open>
  \<open>AutoCastable<T>\<close> holds a pointer to the source, which it does not own; objects live
  in a memory and are named by their address. \<open>convert(other)\<close> without a template
  argument is \<open>AutoCastable<O>{&other}\<close>. The member \<open>object_\<close> is called \<open>object\<close> here.
  \<open>AutoCastable_operator sc T O'\<close> is \<open>AutoCastable<T>::operator O()\<close>:
  \<open>return convert<O, T>(*object_);\<close>
\<close>

type_synonym addr = nat
type_synonym memory = "addr \<Rightarrow> val"

record AutoCastable =
  object :: addr

definition convert_deferred :: "addr \<Rightarrow> AutoCastable" where
  "convert_deferred other = \<lparr>object = other\<rparr>"

definition AutoCastable_operator ::
  "casts \<Rightarrow> ty \<Rightarrow> ty \<Rightarrow> (AutoCastable \<Rightarrow> memory \<Rightarrow> val run) result" where
  "AutoCastable_operator sc T O' =
     (case convert sc O' T of
        Inl e \<Rightarrow> Inl e
      | Inr conv \<Rightarrow> Inr (\<lambda>self mem. conv (mem (object self))))"

text \<open>
  Where the deferred form is used, a value of some type \<open>O\<close> is asked of the
  \<open>AutoCastable<T>\<close>. In an initialisation (\<open>O y = convert(v);\<close>, an argument handed to a
  parameter of type \<open>O\<close>, a returned value) the one way from the \<open>AutoCastable\<close> to \<open>O\<close> is
  its conversion operator. In an assignment \<open>y = convert(v);\<close> to an lvalue of type \<open>O\<close>
  the assignment operators of \<open>O\<close> are the candidates, as in the loop of \<open>containerCast\<close>.
\<close>

datatype use_context = Initialisation | Assignment

definition deferred_use ::
  "casts \<Rightarrow> use_context \<Rightarrow> ty \<Rightarrow> ty \<Rightarrow> (AutoCastable \<Rightarrow> memory \<Rightarrow> val run) result" where
  "deferred_use sc ctx T O' =
     (case ctx of
        Initialisation \<Rightarrow> AutoCastable_operator sc T O'
      | Assignment \<Rightarrow>
          (if deferred_assignable O' then AutoCastable_operator sc T O' else Inl CompileError))"

definition run_deferred ::
  "(AutoCastable \<Rightarrow> memory \<Rightarrow> val run) result \<Rightarrow> AutoCastable \<Rightarrow> memory \<Rightarrow> val run" where
  "run_deferred inst self mem = (case inst of Inl e \<Rightarrow> Some (Inl e) | Inr f \<Rightarrow> f self mem)"

subsection \<open>Programs the header is used in\<close>

text \<open>
  Cast tables of concrete programs, for evaluating the definitions at concrete inputs.
  The conversions built into the language among the types above: every type to itself
  (a copy), \<open>int\<close> to \<open>double\<close> (exact), \<open>double\<close> to \<open>int\<close> (truncation towards zero,
  undefined where the truncated value is not an \<open>int\<close>).
\<close>

definition int_to_double :: "val \<Rightarrow> val" where
  "int_to_double v = (case v of IntV n \<Rightarrow> DoubleV (of_int (sint n)) | _ \<Rightarrow> v)"

definition double_to_int :: conv where
  "double_to_int v =
     (case v of
        DoubleV x \<Rightarrow>
          (let n = (if 0 \<le> x then \<lfloor>x\<rfloor> else \<lceil>x\<rceil>) in
             if - (2 ^ 31) \<le> n \<and> n < 2 ^ 31 then Some (Inr (IntV (word_of_int n)))
             else Some (Inl Unrepresentable))
      | _ \<Rightarrow> Some (Inr v))"

definition native_casts :: casts where
  "native_casts To From =
     (if From = To then Some (returns (\<lambda>v. v))
      else if From = TInt \<and> To = TDouble then Some (returns int_to_double)
      else if From = TDouble \<and> To = TInt then Some double_to_int
      else None)"

text \<open>
  A program with a class \<open>Meters\<close> (not an aggregate) that has a conversion operator
  \<open>operator double() const\<close> returning its first member, and no constructor taking a
  \<open>double\<close>: \<open>static_cast<double>(m)\<close> is well-formed, \<open>static_cast<Meters>(d)\<close> is not.
\<close>

definition first_member :: "val \<Rightarrow> val" where
  "first_member v = (case v of ObjV (m # ms) \<Rightarrow> m | _ \<Rightarrow> v)"

definition meters_casts :: casts where
  "meters_casts To From =
     (if From = TClass ''Meters'' \<and> To = TDouble then Some (returns first_member)
      else native_casts To From)"

text \<open>
  A program with two classes \<open>Point2\<close> (members \<open>x\<close>, \<open>y\<close>) and \<open>Point3\<close> (members \<open>x\<close>,
  \<open>y\<close>, \<open>z\<close>), each with a converting constructor from the other: \<open>Point3(const Point2&)\<close>
  sets \<open>z\<close> to 0, \<open>Point2(const Point3&)\<close> drops \<open>z\<close>.
\<close>

definition point2_to_point3 :: "val \<Rightarrow> val" where
  "point2_to_point3 v = (case v of ObjV [x, y] \<Rightarrow> ObjV [x, y, IntV 0] | _ \<Rightarrow> v)"

definition point3_to_point2 :: "val \<Rightarrow> val" where
  "point3_to_point2 v = (case v of ObjV [x, y, z] \<Rightarrow> ObjV [x, y] | _ \<Rightarrow> v)"

definition point_casts :: casts where
  "point_casts To From =
     (if From = TClass ''Point2'' \<and> To = TClass ''Point3'' then Some (returns point2_to_point3)
      else if From = TClass ''Point3'' \<and> To = TClass ''Point2'' then Some (returns point3_to_point2)
      else native_casts To From)"

text \<open>
  A program with a resizable sequence container \<open>UniqueSeq<Point2>\<close> that has a converting
  constructor from \<open>std::vector<Point2>\<close>, keeping one copy of each value. In
  \<open>oneway_casts\<close> that is its only conversion; in \<open>twoway_casts\<close> it also has a
  conversion operator back to \<open>std::vector<Point2>\<close>.
\<close>

definition unique_from_vector :: "val \<Rightarrow> val" where
  "unique_from_vector v = ElemsV (remdups (elems v))"

definition oneway_casts :: casts where
  "oneway_casts To From =
     (if From = TSeq ''vector'' (TClass ''Point2'') \<and> To = TSeq ''UniqueSeq'' (TClass ''Point2'')
      then Some (returns unique_from_vector)
      else native_casts To From)"

definition twoway_casts :: casts where
  "twoway_casts To From =
     (if From = TSeq ''UniqueSeq'' (TClass ''Point2'') \<and> To = TSeq ''vector'' (TClass ''Point2'')
      then Some (returns (\<lambda>v. v))
      else oneway_casts To From)"

section \<open>Reference iteration (nytl/bits/referenceIteration.inl)\<close>

subsection \<open>The return types of the reference iterator (lines 37-46)\<close>

text \<open>
  The types that occur in the declarations: named types, \<open>const T\<close>, \<open>T*\<close>, \<open>T&\<close>, and the
  two class templates of the file.
\<close>

datatype ctype = Named string | Const ctype | Ptr ctype | LRef ctype
  | ReferenceIterator ctype | ReferenceIteration ctype

text \<open>
  \<open>std::remove_pointer\<close> of the standard library: the pointee type of a (possibly
  const) pointer type, every other type unchanged. A reference to a pointer is not a
  pointer type.
\<close>

fun remove_pointer :: "ctype \<Rightarrow> ctype" where
  "remove_pointer (Ptr P) = P"
| "remove_pointer (Const (Ptr P)) = P"
| "remove_pointer T = T"

text \<open>The type of the lvalue \<open>*e\<close> for an expression \<open>e\<close> of pointer type.\<close>

fun indirection :: "ctype \<Rightarrow> ctype option" where
  "indirection (Ptr P) = Some P"
| "indirection (Const (Ptr P)) = Some P"
| "indirection (LRef (Ptr P)) = Some P"
| "indirection (LRef (Const (Ptr P))) = Some P"
| "indirection T = None"

text \<open>
  \<open>D\<close> stands for \<open>decltype(*T{})\<close>, what dereferencing the wrapped iterator yields:
  \<open>P*&\<close> for the iterators of the standard containers of pointers, \<open>P*\<close> for an iterator
  that yields its element by value. The declared return types are
  \<open>auto operator->() -> decltype(*T{})\<close> and
  \<open>auto operator*() -> typename std::remove_pointer<decltype(*T{})>::type\<close>.
\<close>

definition operator_arrow_type :: "ctype \<Rightarrow> ctype" where
  "operator_arrow_type D = D"

definition operator_star_type :: "ctype \<Rightarrow> ctype" where
  "operator_star_type D = remove_pointer D"

text \<open>
  What a function hands back: a reference to the object at an address, or a copy of its
  value. \<open>return e;\<close> for an lvalue \<open>e\<close> of type \<open>P\<close> at address \<open>a\<close>, in a function declared
  to return \<open>R\<close>: a reference when \<open>R\<close> is \<open>P&\<close>, a copy when \<open>R\<close> is \<open>P\<close>, ill-formed for
  the other return types that occur here.
\<close>

datatype 'v returned = Reference addr | Copy 'v

definition return_lvalue :: "ctype \<Rightarrow> ctype \<Rightarrow> addr \<Rightarrow> (addr \<Rightarrow> 'v) \<Rightarrow> 'v returned result" where
  "return_lvalue R P a mem =
     (if R = LRef P then Inr (Reference a)
      else if R = P then Inr (Copy (mem a))
      else Inl CompileError)"

text \<open>
  \<open>operator*() { return *(T::operator*()); }\<close> where the wrapped iterator currently
  yields the pointer \<open>p\<close>.
\<close>

definition referenceIterator_operator_star ::
  "ctype \<Rightarrow> addr \<Rightarrow> (addr \<Rightarrow> 'v) \<Rightarrow> 'v returned result" where
  "referenceIterator_operator_star D p mem =
     (case indirection D of
        None \<Rightarrow> Inl CompileError
      | Some P \<Rightarrow> return_lvalue (operator_star_type D) P p mem)"

subsection \<open>The collection wrapper (lines 48-88)\<close>

text \<open>
  \<open>referenceIterator<T>\<close> derives from \<open>T\<close> and is constructed from a \<open>T\<close> (line 41).
  That constructor is the one conversion the file declares. \<open>initialises R E\<close>: a value
  of type \<open>R\<close> can be returned from an expression of type \<open>E\<close>, which is so for the same
  type and through that constructor (one user-defined conversion; a second one, before
  or after it, is not applied implicitly).
\<close>

datatype 'it referenceIterator = referenceIterator 'it

definition makeReferenceIterator :: "'it \<Rightarrow> 'it referenceIterator" where
  "makeReferenceIterator it = referenceIterator it"

definition initialises :: "ctype \<Rightarrow> ctype \<Rightarrow> bool" where
  "initialises R E = (R = E \<or> R = ReferenceIterator E)"

text \<open>
  \<open>referenceIteration<T>\<close> holds \<open>T* object_\<close>. The wrapped collection holds pointers.
  An iterator of the collection is a position in the collection at a given address:
  \<open>begin()\<close> and \<open>cbegin()\<close> the first position, \<open>end()\<close> and \<open>cend()\<close> the one past the
  last.
\<close>

datatype iter = Iter addr nat

record referenceIteration =
  object :: addr

text \<open>\<open>referenceIteration(T& object) : object_(&object) {}\<close>\<close>

definition referenceIteration_ctor :: "addr \<Rightarrow> referenceIteration" where
  "referenceIteration_ctor obj = \<lparr>object = obj\<rparr>"

definition coll_begin :: "addr \<Rightarrow> addr list \<Rightarrow> iter" where
  "coll_begin a xs = Iter a 0"

definition coll_end :: "addr \<Rightarrow> addr list \<Rightarrow> iter" where
  "coll_end a xs = Iter a (length xs)"

definition coll_cbegin :: "addr \<Rightarrow> addr list \<Rightarrow> iter" where
  "coll_cbegin a xs = Iter a 0"

definition coll_cend :: "addr \<Rightarrow> addr list \<Rightarrow> iter" where
  "coll_cend a xs = Iter a (length xs)"

text \<open>
  What the wrapped collection type \<open>T\<close> contributes to the declarations is two types:
  \<open>decltype(object_->begin())\<close> and \<open>decltype(object_->cbegin())\<close> for \<open>object_\<close> of type
  \<open>T*\<close> (lines 60-61); \<open>end()\<close> has the type of \<open>begin()\<close> and \<open>cend()\<close> that of \<open>cbegin()\<close>.
  For a standard container these are \<open>T::iterator\<close> and \<open>T::const_iterator\<close>, two class
  types with a conversion from the first to the second. For a const-qualified \<open>T\<close>,
  \<open>begin()\<close> is the const overload, and both are \<open>T::const_iterator\<close>.
\<close>

record collection_type =
  begin_type :: ctype
  cbegin_type :: ctype

definition iterator_type :: "collection_type \<Rightarrow> ctype" where
  "iterator_type C = ReferenceIterator (begin_type C)"

definition const_iterator_type :: "collection_type \<Rightarrow> ctype" where
  "const_iterator_type C = ReferenceIterator (cbegin_type C)"

definition vector_of_pointers :: collection_type where
  "vector_of_pointers =
     \<lparr>begin_type = Named ''std::vector<int*>::iterator'',
      cbegin_type = Named ''std::vector<int*>::const_iterator''\<rparr>"

definition const_vector_of_pointers :: collection_type where
  "const_vector_of_pointers =
     \<lparr>begin_type = Named ''std::vector<int*>::const_iterator'',
      cbegin_type = Named ''std::vector<int*>::const_iterator''\<rparr>"

text \<open>
  \<open>return e;\<close> for an iterator \<open>e\<close> of type \<open>E\<close>, in a member function declared to return
  \<open>R\<close>.
\<close>

definition return_iterator :: "ctype \<Rightarrow> ctype \<Rightarrow> iter \<Rightarrow> iter referenceIterator result" where
  "return_iterator R E it =
     (if initialises R E then Inr (referenceIterator it) else Inl CompileError)"

text \<open>
  \<open>iterator begin(){ object_->begin(); }\<close> and \<open>iterator end(){ object_->end(); }\<close>: the
  call is evaluated, its value dropped, and control reaches the closing brace.
  \<open>const_iterator begin() const { return object_->begin(); }\<close>, likewise \<open>end() const\<close>:
  in a const member function \<open>object_\<close> is still a pointer to \<open>T\<close>, so the call is the
  one of lines 69 and 76, of type \<open>decltype(object_->begin())\<close>; its value is returned as
  a \<open>const_iterator\<close>. \<open>cbegin()\<close> and \<open>cend()\<close> return \<open>object_->cbegin()\<close> and
  \<open>object_->cend()\<close>.
\<close>

definition referenceIteration_begin ::
  "collection_type \<Rightarrow> referenceIteration \<Rightarrow> (addr \<Rightarrow> addr list) \<Rightarrow>
     iter referenceIterator result" where
  "referenceIteration_begin C self heap =
     (let discarded = coll_begin (referenceIteration.object self)
            (heap (referenceIteration.object self))
      in Inl NoReturn)"

definition referenceIteration_end ::
  "collection_type \<Rightarrow> referenceIteration \<Rightarrow> (addr \<Rightarrow> addr list) \<Rightarrow>
     iter referenceIterator result" where
  "referenceIteration_end C self heap =
     (let discarded = coll_end (referenceIteration.object self)
            (heap (referenceIteration.object self))
      in Inl NoReturn)"

definition referenceIteration_begin_const ::
  "collection_type \<Rightarrow> referenceIteration \<Rightarrow> (addr \<Rightarrow> addr list) \<Rightarrow>
     iter referenceIterator result" where
  "referenceIteration_begin_const C self heap =
     return_iterator (const_iterator_type C) (begin_type C)
       (coll_begin (referenceIteration.object self) (heap (referenceIteration.object self)))"

definition referenceIteration_end_const ::
  "collection_type \<Rightarrow> referenceIteration \<Rightarrow> (addr \<Rightarrow> addr list) \<Rightarrow>
     iter referenceIterator result" where
  "referenceIteration_end_const C self heap =
     return_iterator (const_iterator_type C) (begin_type C)
       (coll_end (referenceIteration.object self) (heap (referenceIteration.object self)))"

definition referenceIteration_cbegin ::
  "collection_type \<Rightarrow> referenceIteration \<Rightarrow> (addr \<Rightarrow> addr list) \<Rightarrow>
     iter referenceIterator result" where
  "referenceIteration_cbegin C self heap =
     return_iterator (const_iterator_type C) (cbegin_type C)
       (coll_cbegin (referenceIteration.object self) (heap (referenceIteration.object self)))"

definition referenceIteration_cend ::
  "collection_type \<Rightarrow> referenceIteration \<Rightarrow> (addr \<Rightarrow> addr list) \<Rightarrow>
     iter referenceIterator result" where
  "referenceIteration_cend C self heap =
     return_iterator (const_iterator_type C) (cbegin_type C)
       (coll_cend (referenceIteration.object self) (heap (referenceIteration.object self)))"

text \<open>
  \<open>template<typename T> referenceIterator<T> makeReferenceIteration(const T& obj)
  { return referenceIteration<T>(obj); }\<close> The declared return type is
  \<open>referenceIterator<T>\<close>. The expression constructs a \<open>referenceIteration<T>\<close> from
  \<open>obj\<close>, an lvalue of type \<open>const T\<close>, through the constructor
  \<open>referenceIteration(T& object)\<close>. \<open>add_const T\<close> is \<open>const T\<close> (a type that is const
  already stays as it is). \<open>binds_reference P A\<close>: a parameter of reference type \<open>P\<close> binds
  an lvalue of type \<open>A\<close>.
\<close>

fun is_const :: "ctype \<Rightarrow> bool" where
  "is_const (Const X) = True"
| "is_const T = False"

fun add_const :: "ctype \<Rightarrow> ctype" where
  "add_const (Const X) = Const X"
| "add_const T = Const T"

definition binds_reference :: "ctype \<Rightarrow> ctype \<Rightarrow> bool" where
  "binds_reference P A = (P = LRef A \<or> P = LRef (add_const A))"

definition makeReferenceIteration_type :: "ctype \<Rightarrow> ctype" where
  "makeReferenceIteration_type T = ReferenceIterator T"

definition makeReferenceIteration ::
  "ctype \<Rightarrow> addr \<Rightarrow> referenceIteration referenceIterator result" where
  "makeReferenceIteration T obj =
     (if binds_reference (LRef T) (add_const T) \<and>
         initialises (makeReferenceIteration_type T) (ReferenceIteration T)
      then Inr (referenceIterator (referenceIteration_ctor obj))
      else Inl CompileError)"

section \<open>Properties of the two loops\<close>

lemmas eval_defs = explicit_overload_chosen_def Converter_call.simps arrayCast.simps containerCast.simps
  convert.simps call_convert.simps expressionValid_def ValidStaticCast_def
  ValidContainerCast_def containerCast_valid_def void_t_def is_same_def invoke_def
  ValidArrayCast_def arrayCast_valid_def

lemma unat_plus1: "unat (i :: 32 word) < I \<Longrightarrow> I < 2 ^ 32 \<Longrightarrow> unat (i + 1) = Suc (unat i)"
  by (simp add: unat_word_ariths)

text \<open>Whatever the element conversion does, the loop hands back the source it was given.\<close>

lemma arrayCast_loop_frame_aux:
  assumes "arrayCast_loop conv I array ret i = Some res"
  shows "case res of Inl e \<Rightarrow> True | Inr (a', r') \<Rightarrow> a' = array \<and> length r' = length ret"
proof (rule arrayCast_loop.raw_induct
    [where P = "\<lambda>conv I array ret i res.
       case res of Inl e \<Rightarrow> True | Inr (a', r') \<Rightarrow> a' = array \<and> length r' = length ret",
     OF _ assms], goal_cases)
  case (1 loop conv I array ret i res)
  then show ?case
    by (fastforce split: if_splits option.splits sum.splits)
qed

lemma arrayCast_loop_frame:
  "arrayCast_loop conv I array ret i = Some (Inr (a', r')) \<Longrightarrow>
     a' = array \<and> length r' = length ret"
  using arrayCast_loop_frame_aux [of conv I array ret i "Inr (a', r')"] by simp

text \<open>
  With an element conversion that returns on every element and a length within the
  counter's range, the loop ends, having overwritten \<open>ret\<close> from position \<open>i\<close> on.
\<close>

lemma arrayCast_loop_total:
  assumes "length array = I" and "I < 2 ^ 32"
    and "\<forall>x\<in>set array. conv x = Some (Inr (g x))"
  shows "length ret = I \<Longrightarrow> unat i \<le> I \<Longrightarrow>
    arrayCast_loop conv I array ret i =
      Some (Inr (array, take (unat i) ret @ map g (drop (unat i) array)))"
proof (induction "I - unat i" arbitrary: ret i)
  case 0
  then have "unat i = I" by simp
  with 0 assms show ?case
    by (subst arrayCast_loop.simps) simp
next
  case (Suc n)
  then have lt: "unat i < I" by simp
  have step: "unat (i + 1) = Suc (unat i)"
    using lt assms(2) by (rule unat_plus1)
  have cv: "conv (array ! unat i) = Some (Inr (g (array ! unat i)))"
    using assms(1,3) lt by simp
  have IH: "arrayCast_loop conv I array (ret[unat i := g (array ! unat i)]) (i + 1) =
      Some (Inr (array, take (unat (i + 1)) (ret[unat i := g (array ! unat i)]) @
         map g (drop (unat (i + 1)) array)))"
    using Suc.hyps(2) Suc.prems lt step by (intro Suc.hyps(1)) simp_all
  have "take (Suc (unat i)) (ret[unat i := g (array ! unat i)]) @
          map g (drop (Suc (unat i)) array)
      = take (unat i) ret @ map g (drop (unat i) array)"
    using lt Suc.prems(1) assms(1)
    by (simp add: take_Suc_conv_app_nth Cons_nth_drop_Suc [symmetric])
  with IH step lt cv Suc.prems(1) assms(1) show ?case
    by (subst arrayCast_loop.simps) simp
qed

lemma arrayCast_body_map:
  assumes "length array = I" and "I < 2 ^ 32"
    and "\<forall>x\<in>set array. conv x = Some (Inr (g x))"
  shows "arrayCast_body conv T I array = Some (Inr (map g array))"
  using arrayCast_loop_total [OF assms, of "replicate I (value_init T)" 0]
  by (simp add: arrayCast_body_def)

text \<open>
  With a length of \<open>2 ^ 32\<close> or more the counter wraps before it reaches the length: the
  loop does not return, whatever it is started with.
\<close>

lemma arrayCast_loop_wraps:
  assumes "arrayCast_loop conv I array ret i = Some res"
  shows "\<not> (2 ^ 32 \<le> I \<and> length array = I \<and> length ret = I \<and>
            (\<forall>x\<in>set array. \<exists>y. conv x = Some (Inr y)))"
proof (rule arrayCast_loop.raw_induct
    [where P = "\<lambda>conv I array ret i res.
       \<not> (2 ^ 32 \<le> I \<and> length array = I \<and> length ret = I \<and>
            (\<forall>x\<in>set array. \<exists>y. conv x = Some (Inr y)))",
     OF _ assms], goal_cases)
  case (1 loop conv I array ret i res)
  show ?case
  proof
    assume h: "2 ^ 32 \<le> I \<and> length array = I \<and> length ret = I \<and>
            (\<forall>x\<in>set array. \<exists>y. conv x = Some (Inr y))"
    have "unat i < 2 ^ 32"
      using unsigned_less [of i] by simp
    with h have lt: "unat i < I" by simp
    with h obtain y where y: "conv (array ! unat i) = Some (Inr y)"
      by (metis nth_mem)
    from 1(2) lt h y have "loop conv I array (ret[unat i := y]) (i + 1) = Some res"
      by simp
    from 1(1) [OF this] h show False
      by simp
  qed
qed

lemma containerCast_loop_frame:
  "containerCast_loop conv con ret f t = Some (Inr (c', r')) \<Longrightarrow>
     c' = con \<and> length r' = length ret"
proof (induction conv con ret f t rule: containerCast_loop.induct)
  case (1 conv con ret f t)
  then show ?case
    by (subst (asm) (2) containerCast_loop.simps)
       (auto split: if_splits option.splits sum.splits)
qed

lemma containerCast_loop_total:
  assumes "\<forall>x\<in>set con. conv x = Some (Inr (g x))"
  shows "length ret = length con \<Longrightarrow> f \<le> length con \<Longrightarrow>
    containerCast_loop conv con ret f f =
      Some (Inr (con, take f ret @ map g (drop f con)))"
proof (induction "length con - f" arbitrary: ret f)
  case 0
  then show ?case by (subst containerCast_loop.simps) simp
next
  case (Suc n)
  then have lt: "f < length con" by simp
  have cv: "conv (con ! f) = Some (Inr (g (con ! f)))"
    using assms lt by simp
  have IH: "containerCast_loop conv con (ret[f := g (con ! f)]) (f + 1) (f + 1) =
      Some (Inr (con, take (f + 1) (ret[f := g (con ! f)]) @ map g (drop (f + 1) con)))"
    using Suc.hyps(2) Suc.prems lt by (intro Suc.hyps(1)) simp_all
  have "take (Suc f) (ret[f := g (con ! f)]) @ map g (drop (Suc f) con)
      = take f ret @ map g (drop f con)"
    using lt Suc.prems(1)
    by (simp add: take_Suc_conv_app_nth Cons_nth_drop_Suc [symmetric])
  with IH lt cv Suc.prems(1) show ?case
    by (subst containerCast_loop.simps) simp
qed

lemma containerCast_body_map:
  assumes "\<forall>x\<in>set con. conv x = Some (Inr (g x))"
  shows "containerCast_body conv E con = Some (Inr (map g con))"
  using containerCast_loop_total [OF assms, of "resize E [] (length con)" 0]
  by (simp add: containerCast_body_def resize_def)

section \<open>Properties of the templates\<close>

lemma returning_choice:
  "\<forall>x\<in>set c. \<exists>y. conv x = Some (Inr y) \<Longrightarrow> \<exists>g. \<forall>x\<in>set c. conv x = Some (Inr (g x))"
  by (rule bchoice)

text \<open>
  Where \<open>containerCast\<close> is viable and the conversion of the elements is instantiated
  and returns on every element of the source, \<open>containerCast\<close> returns the converted
  elements in their order.
\<close>

lemma containerCast_returns:
  assumes "containerCast_valid T U" and "value_type T = Some B" and "value_type U = Some A"
    and "convert sc B A = Inr conv"
    and "\<forall>x\<in>set c. conv x = Some (Inr (g x))"
  shows "invoke (containerCast sc T U) (ElemsV c) = Some (Inr (ElemsV (map g c)))"
proof -
  have "containerCast sc T U = Inr (on_elems (containerCast_body conv B))"
    using assms(1-4) by (simp add: containerCast.simps)
  moreover have "on_elems (containerCast_body conv B) (ElemsV c) = Some (Inr (ElemsV (map g c)))"
    using containerCast_body_map [OF assms(5)] by (simp add: on_elems_def)
  ultimately show ?thesis by (simp add: invoke_def)
qed

lemma arrayCast_returns:
  assumes "call_convert sc T U = Inr conv"
    and "\<forall>x\<in>set arr. conv x = Some (Inr (g x))"
    and "length arr = I" and "I < 2 ^ 32"
  shows "invoke (arrayCast sc T U I) (ElemsV arr) = Some (Inr (ElemsV (map g arr)))"
proof -
  have "explicit_overload_chosen T U"
    using assms(1) by (auto simp: call_convert.simps split: if_splits)
  then have "arrayCast sc T U I = Inr (on_elems (arrayCast_body conv T I))"
    using assms(1) by (simp add: arrayCast.simps arrayCast_valid_def)
  moreover have "on_elems (arrayCast_body conv T I) (ElemsV arr) = Some (Inr (ElemsV (map g arr)))"
    using arrayCast_body_map [OF assms(3,4,2)] by (simp add: on_elems_def)
  ultimately show ?thesis by (simp add: invoke_def)
qed

text \<open>Which function \<open>convert\<close> is, where it goes through an element-wise conversion.\<close>

lemma convert_container_path:
  assumes "array_specialization From To = None"
    and "\<not> expressionValid (ValidStaticCast sc) From To"
    and "expressionValid ValidContainerCast From To"
    and "containerCast sc From To = Inr tested"
  shows "convert sc To From = containerCast sc To From"
  using assms by (simp add: convert.simps Converter_call.simps)

lemma convert_array_path:
  assumes "call_convert sc T U = Inr conv"
  shows "convert sc (TArray T I) (TArray U I) = arrayCast sc T U I"
proof -
  have "explicit_overload_chosen T U"
    using assms by (auto simp: call_convert.simps split: if_splits)
  then have "array_specialization (TArray U I) (TArray T I) = Some (U, T, I)"
    by (simp add: ValidArrayCast_def arrayCast_valid_def void_t_def)
  then show ?thesis
    by (simp add: convert.simps Converter_call.simps)
qed

text \<open>
  The conversion operator of \<open>AutoCastable\<close> is \<open>convert\<close> on the object its pointer
  names.
\<close>

lemma AutoCastable_operator_convert:
  "run_deferred (AutoCastable_operator sc T O') (convert_deferred obj) mem
     = invoke (convert sc O' T) (mem obj)"
  by (simp add: run_deferred_def AutoCastable_operator_def convert_deferred_def invoke_def
      split: sum.splits)

text \<open>A call \<open>convert<T>(e)\<close> for \<open>e\<close> of type \<open>T\<close> itself is ambiguous.\<close>

lemma call_convert_same_type: "call_convert sc T T = Inl CompileError"
  by (simp add: call_convert.simps explicit_overload_chosen_def)

lemma ctype_neq:
  "P \<noteq> LRef P" "Ptr P \<noteq> P" "Const (Ptr P) \<noteq> P" "P \<noteq> Const P" "P \<noteq> ReferenceIteration P"
  by (induction P, auto)+

section \<open>The claims\<close>

subsection \<open>Conversions through the native cast\<close>

text \<open>
  C1 (the code departs from it). Claim: for every value \<open>v\<close> of a type \<open>A\<close> directly
  convertible to \<open>B\<close>, \<open>convert<B>(v)\<close> returns what \<open>static_cast<B>(v)\<close> returns.
  The theorem: the test the code makes before its \<open>static_cast<To>(other)\<close> is whether
  the cast from \<open>To\<close> to \<open>From\<close> is well-formed (\<open>sc From To\<close>), for all types; and the
  code evaluated on a \<open>Meters\<close> object holding 3.0, converted to
  \<open>double\<close>: \<open>static_cast<double>\<close> is well-formed and yields 3.0, but the test
  \<open>expressionValid<ValidStaticCast, From, To>\<close> instantiates \<open>ValidStaticCast\<close> with
  \<open>Meters\<close> as its target and \<open>double\<close> as its source, which is ill-formed; no other
  strategy applies, the \<open>static_assert\<close> holds, and \<open>call\<close> ends without returning.
\<close>

theorem convert_tests_reverse_cast:
  "expressionValid (ValidStaticCast sc) From To = (sc From To \<noteq> None) \<and>
   map_option (\<lambda>c. c (ObjV [DoubleV 3])) (meters_casts TDouble (TClass ''Meters''))
     = Some (Some (Inr (DoubleV 3))) \<and>
   \<not> expressionValid (ValidStaticCast meters_casts) (TClass ''Meters'') TDouble \<and>
   invoke (call_convert meters_casts TDouble (TClass ''Meters'')) (ObjV [DoubleV 3])
     = Some (Inl NoReturn)"
  by (simp add: eval_defs meters_casts_def native_casts_def first_member_def returns_def
      split: option.splits)

text \<open>
  X1 (beyond the claims): where each type can be cast to the other (and the pair is not one
  for the array specialisation), \<open>convert<To>(v)\<close> is \<open>static_cast<To>(v)\<close>.
\<close>

theorem convert_static_cast_both_ways:
  assumes "sc To From = Some c" and "sc From To = Some c'"
    and "array_specialization From To = None" and "From \<noteq> To"
  shows "invoke (call_convert sc To From) v = c v"
  using assms by (simp add: eval_defs)

theorem convert_static_cast_both_ways_witness:
  "invoke (call_convert native_casts TDouble TInt) (IntV 7) = Some (Inr (DoubleV 7))"
proof -
  have a: "native_casts TDouble TInt = Some (returns int_to_double)"
    and b: "native_casts TInt TDouble = Some double_to_int"
    and c: "array_specialization TInt TDouble = None" and d: "TInt \<noteq> TDouble"
    by (simp_all add: native_casts_def)
  show ?thesis
    using convert_static_cast_both_ways [OF a b c d, of "IntV 7"]
    by (simp add: int_to_double_def returns_def)
qed

text \<open>
  C6 (the code departs from it). Claim: where more than one strategy applies,
  \<open>convert<To>\<close> takes the native cast before the container cast before the array cast.
  The array specialisation has no pair in common with the other two (the language has no
  cast between distinct \<open>std::array\<close> types, and \<open>std::array\<close> has no \<open>resize\<close>), so
  the order shows between the native cast and the container cast. The theorem evaluates
  the code on the \<open>std::vector<Point2>\<close> holding (1, 2), (1, 2), converted to
  \<open>UniqueSeq<Point2>\<close> in the program where only that direction is castable. Both the
  native cast (yielding the one element (1, 2)) and the container cast apply. The test
  for the native cast is made on the reverse pair and fails; the test for the container
  cast, also on the reverse pair, holds; the result is the element-wise copy.
\<close>

theorem convert_takes_container_cast_over_native:
  "map_option (\<lambda>c. c (ElemsV [ObjV [IntV 1, IntV 2], ObjV [IntV 1, IntV 2]]))
      (oneway_casts (TSeq ''UniqueSeq'' (TClass ''Point2'')) (TSeq ''vector'' (TClass ''Point2'')))
     = Some (Some (Inr (ElemsV [ObjV [IntV 1, IntV 2]]))) \<and>
   containerCast_valid (TSeq ''UniqueSeq'' (TClass ''Point2'')) (TSeq ''vector'' (TClass ''Point2'')) \<and>
   invoke (call_convert oneway_casts
        (TSeq ''UniqueSeq'' (TClass ''Point2'')) (TSeq ''vector'' (TClass ''Point2'')))
      (ElemsV [ObjV [IntV 1, IntV 2], ObjV [IntV 1, IntV 2]])
     = Some (Inr (ElemsV [ObjV [IntV 1, IntV 2], ObjV [IntV 1, IntV 2]]))"
proof -
  have c: "convert oneway_casts (TClass ''Point2'') (TClass ''Point2'') = Inr (returns (\<lambda>v. v))"
    by (simp add: eval_defs oneway_casts_def native_casts_def)
  have b: "containerCast_body (returns (\<lambda>v. v)) (TClass ''Point2'')
        [ObjV [IntV 1, IntV 2], ObjV [IntV 1, IntV 2]]
      = Some (Inr (map (\<lambda>v. v) [ObjV [IntV 1, IntV 2], ObjV [IntV 1, IntV 2]]))"
    by (rule containerCast_body_map) (simp add: returns_def)
  have "containerCast oneway_casts
        (TSeq ''UniqueSeq'' (TClass ''Point2'')) (TSeq ''vector'' (TClass ''Point2''))
      = Inr (on_elems (containerCast_body (returns (\<lambda>v. v)) (TClass ''Point2'')))"
    using c by (simp add: containerCast.simps containerCast_valid_def)
  moreover have "containerCast oneway_casts
        (TSeq ''vector'' (TClass ''Point2'')) (TSeq ''UniqueSeq'' (TClass ''Point2''))
      = Inr (on_elems (containerCast_body (returns (\<lambda>v. v)) (TClass ''Point2'')))"
    using c by (simp add: containerCast.simps containerCast_valid_def)
  ultimately show ?thesis
    using b
    by (simp add: explicit_overload_chosen_def call_convert.simps convert.simps
        Converter_call.simps
        expressionValid_def ValidStaticCast_def ValidContainerCast_def containerCast_valid_def
        void_t_def invoke_def oneway_casts_def native_casts_def unique_from_vector_def
        on_elems_def returns_def)
qed

text \<open>
  C7 (the code departs from it). Claim: where no strategy applies, \<open>convert<To>(value)\<close>
  fails to compile. The theorem evaluates the code on two unrelated classes: no cast
  either way, no container, no array. The instantiation is not ill-formed
  (\<open>std::is_same<void_t<From>, void>::value\<close> is true, so the \<open>static_assert\<close> holds), and
  the call flows off the end of \<open>call\<close>.
\<close>

theorem convert_without_strategy_is_instantiated:
  "native_casts (TClass ''Orange'') (TClass ''Apple'') = None \<and>
   native_casts (TClass ''Apple'') (TClass ''Orange'') = None \<and>
   ValidContainerCast (TClass ''Orange'') (TClass ''Apple'') = None \<and>
   array_specialization (TClass ''Apple'') (TClass ''Orange'') = None \<and>
   call_convert native_casts (TClass ''Orange'') (TClass ''Apple'') \<noteq> Inl CompileError \<and>
   invoke (call_convert native_casts (TClass ''Orange'') (TClass ''Apple'')) (ObjV [])
     = Some (Inl NoReturn)"
  by (simp add: eval_defs native_casts_def)

text \<open>
  X2 (beyond the claims): whenever the general specialisation is the one instantiated and
  neither of its tests holds, the instantiation is well-formed and the call does not
  return a value; the \<open>static_assert\<close> rejects no pair of types.
\<close>

theorem Converter_call_last_branch:
  assumes "array_specialization From To = None"
    and "\<not> expressionValid (ValidStaticCast sc) From To"
    and "\<not> expressionValid ValidContainerCast From To"
  shows "Converter_call sc From To = Inr (\<lambda>other. Some (Inl NoReturn))"
  using assms by (simp add: Converter_call.simps is_same_def void_t_def)

theorem Converter_call_last_branch_witness:
  "Converter_call native_casts (TClass ''Apple'') (TClass ''Orange'')
     = Inr (\<lambda>other. Some (Inl NoReturn))"
proof -
  have a: "array_specialization (TClass ''Apple'') (TClass ''Orange'') = None"
    and b: "\<not> expressionValid (ValidStaticCast native_casts) (TClass ''Apple'') (TClass ''Orange'')"
    and c: "\<not> expressionValid ValidContainerCast (TClass ''Apple'') (TClass ''Orange'')"
    by (simp_all add: expressionValid_def ValidStaticCast_def ValidContainerCast_def
        containerCast_valid_def native_casts_def)
  show ?thesis
    using Converter_call_last_branch [OF a b c] by simp
qed

subsection \<open>Element-wise conversions\<close>

text \<open>
  C4 (the code departs from it). Claim: for every container \<open>c\<close> with element type \<open>A\<close>
  and every target container type with element type \<open>B\<close> such that an \<open>A\<close>-to-\<open>B\<close>
  conversion exists, \<open>containerCast<Target>(c)\<close> returns a container of the size of \<open>c\<close>
  whose \<open>i\<close>-th element is \<open>convert<B>(c[i])\<close>. The theorem evaluates the code for
  containers whose elements are containers. A \<open>std::vector<Point2>\<close> converts to a
  \<open>std::list<Point2>\<close>: \<open>convert<std::list<Point2>>\<close> returns the element-wise copy. But
  \<open>containerCast<std::vector<std::list<Point2>>>\<close> on a
  \<open>std::vector<std::vector<Point2>>\<close> is ill-formed: the deferred \<open>convert(*f)\<close> is
  assigned to an element of type \<open>std::list<Point2>\<close>, which is ambiguous, so the
  template's validity condition fails. It does so for every target whose elements are
  sequence containers, whatever the source and the casts of the program.
\<close>

theorem containerCast_rejects_nested_containers:
  "invoke (call_convert point_casts
        (TSeq ''list'' (TClass ''Point2'')) (TSeq ''vector'' (TClass ''Point2'')))
      (ElemsV [ObjV [IntV 1, IntV 2]])
     = Some (Inr (ElemsV [ObjV [IntV 1, IntV 2]])) \<and>
   containerCast point_casts
       (TSeq ''vector'' (TSeq ''list'' (TClass ''Point2'')))
       (TSeq ''vector'' (TSeq ''vector'' (TClass ''Point2'')))
     = Inl CompileError \<and>
   containerCast sc (TSeq k (TSeq k' E)) U = Inl CompileError"
proof -
  have c: "convert point_casts (TClass ''Point2'') (TClass ''Point2'') = Inr (returns (\<lambda>v. v))"
    by (simp add: eval_defs point_casts_def native_casts_def)
  have v: "containerCast_valid (TSeq ''list'' (TClass ''Point2'')) (TSeq ''vector'' (TClass ''Point2''))"
    by (simp add: containerCast_valid_def)
  have "invoke (containerCast point_casts
        (TSeq ''list'' (TClass ''Point2'')) (TSeq ''vector'' (TClass ''Point2'')))
      (ElemsV [ObjV [IntV 1, IntV 2]])
     = Some (Inr (ElemsV (map (\<lambda>v. v) [ObjV [IntV 1, IntV 2]])))"
    by (rule containerCast_returns [OF v _ _ c]) (simp_all add: returns_def)
  moreover have "containerCast point_casts
        (TSeq ''vector'' (TClass ''Point2'')) (TSeq ''list'' (TClass ''Point2''))
      = Inr (on_elems (containerCast_body (returns (\<lambda>v. v)) (TClass ''Point2'')))"
    using c by (simp add: containerCast.simps containerCast_valid_def)
  then have "call_convert point_casts
        (TSeq ''list'' (TClass ''Point2'')) (TSeq ''vector'' (TClass ''Point2''))
      = containerCast point_casts
        (TSeq ''list'' (TClass ''Point2'')) (TSeq ''vector'' (TClass ''Point2''))"
    by (simp add: call_convert.simps convert.simps Converter_call.simps
        explicit_overload_chosen_def expressionValid_def ValidStaticCast_def
        ValidContainerCast_def containerCast_valid_def void_t_def point_casts_def
        native_casts_def)
  ultimately show ?thesis
    by (simp add: containerCast.simps containerCast_valid_def)
qed

text \<open>
  X3 (beyond the claims): where \<open>containerCast<T>\<close> on a \<open>U\<close> is viable (a resizable
  target whose elements can be assigned the deferred form), and \<open>convert\<close> from the
  source's element type \<open>A\<close> to the target's \<open>B\<close> is instantiated (to \<open>conv\<close>) and returns
  a value \<open>g x\<close> on every element \<open>x\<close> of \<open>c\<close>: \<open>containerCast<T>(c)\<close> returns a container
  \<open>r\<close> with as many elements as \<open>c\<close>, whose \<open>i\<close>-th element in iteration order is the
  conversion of the \<open>i\<close>-th element of \<open>c\<close>. The empty container is included. The witness
  converts a \<open>std::list<Point2>\<close> to a \<open>std::vector<Point3>\<close>.
\<close>

theorem containerCast_elementwise:
  assumes "containerCast_valid T U" and "value_type T = Some B" and "value_type U = Some A"
    and "convert sc B A = Inr conv"
    and "\<forall>x\<in>set c. conv x = Some (Inr (g x))"
  shows "\<exists>r. invoke (containerCast sc T U) (ElemsV c) = Some (Inr (ElemsV r)) \<and>
           r = map g c \<and> length r = length c \<and> (\<forall>i<length c. r ! i = g (c ! i))"
  using containerCast_returns [OF assms] by simp

theorem containerCast_elementwise_witness:
  "invoke (containerCast point_casts
        (TSeq ''vector'' (TClass ''Point3'')) (TSeq ''list'' (TClass ''Point2'')))
     (ElemsV [ObjV [IntV 1, IntV 2], ObjV [IntV 3, IntV 4]])
       = Some (Inr (ElemsV [ObjV [IntV 1, IntV 2, IntV 0], ObjV [IntV 3, IntV 4, IntV 0]]))"
proof -
  have c: "convert point_casts (TClass ''Point3'') (TClass ''Point2'')
      = Inr (returns point2_to_point3)"
    by (simp add: eval_defs point_casts_def native_casts_def)
  have e: "\<forall>x\<in>set [ObjV [IntV 1, IntV 2], ObjV [IntV 3, IntV 4]].
      returns point2_to_point3 x = Some (Inr (point2_to_point3 x))"
    by (simp add: returns_def)
  have h: "containerCast_valid (TSeq ''vector'' (TClass ''Point3'')) (TSeq ''list'' (TClass ''Point2''))"
    and t: "value_type (TSeq ''vector'' (TClass ''Point3'')) = Some (TClass ''Point3'')"
    and u: "value_type (TSeq ''list'' (TClass ''Point2'')) = Some (TClass ''Point2'')"
    by (simp_all add: containerCast_valid_def)
  from containerCast_elementwise [OF h t u c e] obtain r
    where "invoke (containerCast point_casts
        (TSeq ''vector'' (TClass ''Point3'')) (TSeq ''list'' (TClass ''Point2'')))
        (ElemsV [ObjV [IntV 1, IntV 2], ObjV [IntV 3, IntV 4]]) = Some (Inr (ElemsV r))"
      and "r = map point2_to_point3 [ObjV [IntV 1, IntV 2], ObjV [IntV 3, IntV 4]]"
    by blast
  then show ?thesis
    by (simp add: point2_to_point3_def)
qed

text \<open>
  C5 (the code departs from it). Claim: for every array \<open>arr\<close> of length \<open>N\<close> whose
  element type is convertible to \<open>B\<close>, \<open>arrayCast<B>(arr)\<close> returns an array of length
  \<open>N\<close> whose element at every index \<open>i\<close> is \<open>convert<B>(arr[i])\<close>. The theorem evaluates
  the code where the element type is \<open>B\<close> itself: an \<open>int\<close> is cast to \<open>int\<close> by
  \<open>static_cast\<close>, but the call \<open>convert<T>(e)\<close> for \<open>e\<close> of type \<open>T\<close> names both
  function templates called \<open>convert\<close> and is ambiguous, so the validity condition of
  \<open>arrayCast\<close> fails, for every element type, length and program; \<open>arrayCast<int>\<close> on an
  array of three \<open>int\<close> is ill-formed. And where the element type is \<open>Meters\<close>, which
  \<open>static_cast\<close> converts to \<open>double\<close>: \<open>arrayCast<double>\<close> is instantiated and, run on
  the array holding 3.0, does not return a value (the test of \<open>Converter\<close> is made on the
  reverse pair, as in C1).
\<close>

theorem arrayCast_rejects_same_element_type:
  "map_option (\<lambda>c. c (IntV 1)) (native_casts TInt TInt) = Some (Some (Inr (IntV 1))) \<and>
   call_convert sc T T = Inl CompileError \<and>
   arrayCast sc T T I = Inl CompileError \<and>
   arrayCast native_casts TInt TInt 3 = Inl CompileError \<and>
   map_option (\<lambda>c. c (ObjV [DoubleV 3])) (meters_casts TDouble (TClass ''Meters''))
     = Some (Some (Inr (DoubleV 3))) \<and>
   invoke (arrayCast meters_casts TDouble (TClass ''Meters'') 1) (ElemsV [ObjV [DoubleV 3]])
     = Some (Inl NoReturn)"
proof -
  have "arrayCast meters_casts TDouble (TClass ''Meters'') 1
      = Inr (on_elems (arrayCast_body (\<lambda>other. Some (Inl NoReturn)) TDouble 1))"
    by (simp add: eval_defs meters_casts_def native_casts_def)
  moreover have "arrayCast_body (\<lambda>other. Some (Inl NoReturn)) TDouble 1 [ObjV [DoubleV 3]]
      = Some (Inl NoReturn)"
    unfolding arrayCast_body_def by (subst arrayCast_loop.simps) simp
  ultimately show ?thesis
    by (simp add: call_convert_same_type arrayCast.simps arrayCast_valid_def
        explicit_overload_chosen_def native_casts_def meters_casts_def first_member_def
        returns_def invoke_def on_elems_def)
qed

text \<open>
  X4 (beyond the claims): for every array \<open>arr\<close> of length \<open>I\<close> below \<open>2 ^ 32\<close> with
  element type \<open>U\<close> such that the call \<open>convert<T>\<close> on a \<open>U\<close> is well-formed (instantiated
  to \<open>conv\<close>) and returns a value \<open>g x\<close> on every element \<open>x\<close> of \<open>arr\<close>:
  \<open>arrayCast<T>(arr)\<close> returns an array \<open>r\<close> of length \<open>I\<close> with \<open>r[i] = convert<T>(arr[i])\<close>
  at every index. The witness: \<open>arrayCast<double>\<close> on the \<open>int\<close> array 1, 2, 3 yields
  1.0, 2.0, 3.0.
\<close>

theorem arrayCast_elementwise:
  assumes "call_convert sc T U = Inr conv"
    and "\<forall>x\<in>set arr. conv x = Some (Inr (g x))"
    and "length arr = I" and "I < 2 ^ 32"
  shows "\<exists>r. invoke (arrayCast sc T U I) (ElemsV arr) = Some (Inr (ElemsV r)) \<and>
           r = map g arr \<and> length r = I \<and> (\<forall>i<I. r ! i = g (arr ! i))"
  using arrayCast_returns [OF assms] assms(3) by simp

theorem arrayCast_elementwise_witness:
  "invoke (arrayCast native_casts TDouble TInt 3) (ElemsV [IntV 1, IntV 2, IntV 3])
     = Some (Inr (ElemsV [DoubleV 1, DoubleV 2, DoubleV 3]))"
proof -
  have c: "call_convert native_casts TDouble TInt = Inr (returns int_to_double)"
    by (simp add: eval_defs native_casts_def)
  have e: "\<forall>x\<in>set [IntV 1, IntV 2, IntV 3].
      returns int_to_double x = Some (Inr (int_to_double x))"
    by (simp add: returns_def)
  have l: "length [IntV 1, IntV 2, IntV 3] = 3" and b: "(3::nat) < 2 ^ 32"
    by simp_all
  from arrayCast_elementwise [OF c e l b] obtain r
    where "invoke (arrayCast native_casts TDouble TInt 3) (ElemsV [IntV 1, IntV 2, IntV 3])
        = Some (Inr (ElemsV r))"
      and "r = map int_to_double [IntV 1, IntV 2, IntV 3]"
    by blast
  then show ?thesis
    by (simp add: int_to_double_def)
qed

text \<open>
  X5 (beyond the claims): on an array of \<open>2 ^ 32\<close> or more elements, with an element
  conversion that returns on every element, the body of \<open>arrayCast\<close> does not return:
  its counter is an \<open>unsigned int\<close> and wraps to 0 before it reaches the length.
\<close>

theorem arrayCast_body_wraps:
  assumes "2 ^ 32 \<le> I" and "length array = I"
    and "\<forall>x\<in>set array. \<exists>y. conv x = Some (Inr y)"
  shows "arrayCast_body conv T I array = None"
proof (cases "arrayCast_loop conv I array (replicate I (value_init T)) 0")
  case None
  then show ?thesis by (simp add: arrayCast_body_def)
next
  case (Some res)
  from arrayCast_loop_wraps [OF this] assms show ?thesis by simp
qed

theorem arrayCast_body_wraps_witness:
  "arrayCast_body (returns (\<lambda>v. v)) TInt (2 ^ 32) (replicate (2 ^ 32) (IntV 0)) = None"
  using arrayCast_body_wraps
    [of "2 ^ 32" "replicate (2 ^ 32) (IntV 0)" "returns (\<lambda>v. v)" TInt]
  by (simp add: returns_def)

subsection \<open>Sources and sizes\<close>

text \<open>
  C8, as claimed: no conversion changes its source, and every conversion yields a value
  whose size is that of the source. The second half fails for \<open>convert\<close> through the
  native cast: in the program where \<open>UniqueSeq<Point2>\<close> and \<open>std::vector<Point2>\<close>
  convert both ways, \<open>convert<UniqueSeq<Point2>>\<close> on the vector (1, 2), (1, 2) is the
  native cast and yields the one element (1, 2).
\<close>

theorem convert_result_size_counterexample:
  "invoke (call_convert twoway_casts
        (TSeq ''UniqueSeq'' (TClass ''Point2'')) (TSeq ''vector'' (TClass ''Point2'')))
      (ElemsV [ObjV [IntV 1, IntV 2], ObjV [IntV 1, IntV 2]])
     = Some (Inr (ElemsV [ObjV [IntV 1, IntV 2]])) \<and>
   length (elems (ElemsV [ObjV [IntV 1, IntV 2]]))
     \<noteq> length (elems (ElemsV [ObjV [IntV 1, IntV 2], ObjV [IntV 1, IntV 2]]))"
  by (simp add: eval_defs twoway_casts_def oneway_casts_def native_casts_def
      unique_from_vector_def returns_def)

text \<open>
  C8, amended: no conversion changes its source, and every element-wise conversion whose
  element conversion returns a value on each element of the source (on an array of fewer
  than \<open>2 ^ 32\<close> elements, for \<open>arrayCast\<close>) returns a fresh container of the size of the
  source. In the order of the conjuncts:

  \<^item> the loops of \<open>containerCast\<close> and \<open>arrayCast\<close>, the only places that assign, hand
    back the source they were given, whatever the element conversion does;
  \<^item> \<open>containerCast\<close>, where it is viable and the element conversion is instantiated
    and returns on every element of \<open>c\<close>, returns a container with as many elements
    as \<open>c\<close>;
  \<^item> under the same conditions, where \<open>convert\<close> goes through the container cast (neither
    the array specialisation nor the test for the native cast applies, the test for the
    container cast does, and what that test instantiates is well-formed), \<open>convert\<close>
    returns that container, and so does the conversion operator of an \<open>AutoCastable\<close>
    pointing to \<open>c\<close>;
  \<^item> \<open>arrayCast\<close>, where the call that converts an element is well-formed and returns on
    every element of the array \<open>a\<close>, returns an array of the length of \<open>a\<close>; so do
    \<open>convert\<close> between the two array types and the conversion operator of an
    \<open>AutoCastable\<close> pointing to \<open>a\<close>;
  \<^item> \<open>convert\<close> through the native cast, and the conversion operator of an
    \<open>AutoCastable\<close> with it, does what the cast does on the source, whatever the size of
    what that returns.
\<close>

theorem conversions_frame_and_size:
  "(containerCast_loop conv con ret f t = Some (Inr (con', ret')) \<longrightarrow> con' = con) \<and>
   (arrayCast_loop conv I array ret2 i = Some (Inr (array', ret2')) \<longrightarrow> array' = array) \<and>
   (containerCast_valid T U \<and> value_type T = Some B \<and> value_type U = Some A \<and>
      convert sc B A = Inr conv3 \<and> (\<forall>x\<in>set c. \<exists>y. conv3 x = Some (Inr y))
    \<longrightarrow> (\<exists>r. invoke (containerCast sc T U) (ElemsV c) = Some (Inr (ElemsV r)) \<and>
             length r = length c)) \<and>
   (containerCast_valid T U \<and> value_type T = Some B \<and> value_type U = Some A \<and>
      convert sc B A = Inr conv3 \<and> (\<forall>x\<in>set c. \<exists>y. conv3 x = Some (Inr y)) \<and>
      array_specialization U T = None \<and> \<not> expressionValid (ValidStaticCast sc) U T \<and>
      expressionValid ValidContainerCast U T \<and> containerCast sc U T = Inr tested
    \<longrightarrow> (\<exists>r. invoke (convert sc T U) (ElemsV c) = Some (Inr (ElemsV r)) \<and>
             run_deferred (AutoCastable_operator sc U T) (convert_deferred obj)
                 (mem(obj := ElemsV c)) = Some (Inr (ElemsV r)) \<and>
             length r = length c)) \<and>
   (call_convert sc TE UE = Inr conv4 \<and> (\<forall>x\<in>set a. \<exists>y. conv4 x = Some (Inr y)) \<and>
      length a = N \<and> N < 2 ^ 32
    \<longrightarrow> (\<exists>r. invoke (arrayCast sc TE UE N) (ElemsV a) = Some (Inr (ElemsV r)) \<and>
             invoke (convert sc (TArray TE N) (TArray UE N)) (ElemsV a)
               = Some (Inr (ElemsV r)) \<and>
             run_deferred (AutoCastable_operator sc (TArray UE N) (TArray TE N))
                 (convert_deferred obj) (mem(obj := ElemsV a)) = Some (Inr (ElemsV r)) \<and>
             length r = length a)) \<and>
   (array_specialization From To = None \<and> expressionValid (ValidStaticCast sc) From To \<and>
      sc To From = Some cst
    \<longrightarrow> invoke (convert sc To From) other = cst other \<and>
        run_deferred (AutoCastable_operator sc From To) (convert_deferred obj)
            (mem(obj := other)) = cst other)"
proof (intro conjI impI)
  assume "containerCast_loop conv con ret f t = Some (Inr (con', ret'))"
  then show "con' = con"
    by (simp add: containerCast_loop_frame)
next
  assume "arrayCast_loop conv I array ret2 i = Some (Inr (array', ret2'))"
  then show "array' = array"
    by (simp add: arrayCast_loop_frame)
next
  assume h: "containerCast_valid T U \<and> value_type T = Some B \<and> value_type U = Some A \<and>
      convert sc B A = Inr conv3 \<and> (\<forall>x\<in>set c. \<exists>y. conv3 x = Some (Inr y))"
  then obtain g where "\<forall>x\<in>set c. conv3 x = Some (Inr (g x))"
    using returning_choice by blast
  with h have "invoke (containerCast sc T U) (ElemsV c) = Some (Inr (ElemsV (map g c)))"
    by (blast intro: containerCast_returns)
  then show "\<exists>r. invoke (containerCast sc T U) (ElemsV c) = Some (Inr (ElemsV r)) \<and>
      length r = length c"
    by simp
next
  assume h: "containerCast_valid T U \<and> value_type T = Some B \<and> value_type U = Some A \<and>
      convert sc B A = Inr conv3 \<and> (\<forall>x\<in>set c. \<exists>y. conv3 x = Some (Inr y)) \<and>
      array_specialization U T = None \<and> \<not> expressionValid (ValidStaticCast sc) U T \<and>
      expressionValid ValidContainerCast U T \<and> containerCast sc U T = Inr tested"
  then obtain g where "\<forall>x\<in>set c. conv3 x = Some (Inr (g x))"
    using returning_choice by blast
  with h have "invoke (containerCast sc T U) (ElemsV c) = Some (Inr (ElemsV (map g c)))"
    by (blast intro: containerCast_returns)
  moreover from h have "convert sc T U = containerCast sc T U"
    by (blast intro: convert_container_path)
  ultimately show "\<exists>r. invoke (convert sc T U) (ElemsV c) = Some (Inr (ElemsV r)) \<and>
      run_deferred (AutoCastable_operator sc U T) (convert_deferred obj)
          (mem(obj := ElemsV c)) = Some (Inr (ElemsV r)) \<and>
      length r = length c"
    by (simp add: AutoCastable_operator_convert)
next
  assume h: "call_convert sc TE UE = Inr conv4 \<and>
      (\<forall>x\<in>set a. \<exists>y. conv4 x = Some (Inr y)) \<and> length a = N \<and> N < 2 ^ 32"
  then obtain g where "\<forall>x\<in>set a. conv4 x = Some (Inr (g x))"
    using returning_choice by blast
  with h have "invoke (arrayCast sc TE UE N) (ElemsV a) = Some (Inr (ElemsV (map g a)))"
    by (blast intro: arrayCast_returns)
  moreover from h have "convert sc (TArray TE N) (TArray UE N) = arrayCast sc TE UE N"
    by (blast intro: convert_array_path)
  ultimately show "\<exists>r. invoke (arrayCast sc TE UE N) (ElemsV a) = Some (Inr (ElemsV r)) \<and>
      invoke (convert sc (TArray TE N) (TArray UE N)) (ElemsV a) = Some (Inr (ElemsV r)) \<and>
      run_deferred (AutoCastable_operator sc (TArray UE N) (TArray TE N))
          (convert_deferred obj) (mem(obj := ElemsV a)) = Some (Inr (ElemsV r)) \<and>
      length r = length a"
    by (simp add: AutoCastable_operator_convert)
next
  assume h: "array_specialization From To = None \<and>
      expressionValid (ValidStaticCast sc) From To \<and> sc To From = Some cst"
  then show "invoke (convert sc To From) other = cst other"
    by (simp add: convert.simps Converter_call.simps invoke_def)
  with h show "run_deferred (AutoCastable_operator sc From To) (convert_deferred obj)
      (mem(obj := other)) = cst other"
    by (simp add: AutoCastable_operator_convert)
qed

theorem conversions_frame_and_size_witness:
  "containerCast_loop (returns (\<lambda>v. v)) [IntV 1] [IntV 0] 0 0
     = Some (Inr ([IntV 1], [IntV 1])) \<and>
   arrayCast_loop (returns (\<lambda>v. v)) 1 [IntV 1] [IntV 0] 0
     = Some (Inr ([IntV 1], [IntV 1])) \<and>
   (\<exists>r. invoke (containerCast point_casts
            (TSeq ''vector'' (TClass ''Point3'')) (TSeq ''list'' (TClass ''Point2'')))
          (ElemsV [ObjV [IntV 1, IntV 2], ObjV [IntV 3, IntV 4]]) = Some (Inr (ElemsV r)) \<and>
        length r = 2) \<and>
   (\<exists>r. invoke (convert point_casts
            (TSeq ''vector'' (TClass ''Point3'')) (TSeq ''list'' (TClass ''Point2'')))
          (ElemsV [ObjV [IntV 1, IntV 2], ObjV [IntV 3, IntV 4]]) = Some (Inr (ElemsV r)) \<and>
        run_deferred (AutoCastable_operator point_casts
            (TSeq ''list'' (TClass ''Point2'')) (TSeq ''vector'' (TClass ''Point3'')))
          (convert_deferred 5)
          ((\<lambda>a. ObjV [])(5 := ElemsV [ObjV [IntV 1, IntV 2], ObjV [IntV 3, IntV 4]]))
          = Some (Inr (ElemsV r)) \<and>
        length r = 2) \<and>
   (\<exists>r. invoke (arrayCast point_casts TDouble TInt 3) (ElemsV [IntV 1, IntV 2, IntV 3])
          = Some (Inr (ElemsV r)) \<and>
        invoke (convert point_casts (TArray TDouble 3) (TArray TInt 3))
          (ElemsV [IntV 1, IntV 2, IntV 3]) = Some (Inr (ElemsV r)) \<and>
        run_deferred (AutoCastable_operator point_casts (TArray TInt 3) (TArray TDouble 3))
          (convert_deferred 5) ((\<lambda>a. ObjV [])(5 := ElemsV [IntV 1, IntV 2, IntV 3]))
          = Some (Inr (ElemsV r)) \<and>
        length r = 3) \<and>
   invoke (convert point_casts TDouble TInt) (IntV 2) = Some (Inr (DoubleV 2)) \<and>
   run_deferred (AutoCastable_operator point_casts TInt TDouble) (convert_deferred 5)
       ((\<lambda>a. ObjV [])(5 := IntV 2)) = Some (Inr (DoubleV 2))"
proof -
  have e: "\<forall>x\<in>set [IntV 1]. returns (\<lambda>v. v) x = Some (Inr ((\<lambda>v. v) x))"
    by (simp add: returns_def)
  have h1: "containerCast_loop (returns (\<lambda>v. v)) [IntV 1] [IntV 0] 0 0
     = Some (Inr ([IntV 1], [IntV 1]))"
    using containerCast_loop_total [OF e, of "[IntV 0]" 0] by simp
  have h2: "arrayCast_loop (returns (\<lambda>v. v)) 1 [IntV 1] [IntV 0] 0
     = Some (Inr ([IntV 1], [IntV 1]))"
    using arrayCast_loop_total [OF _ _ e, of 1 "[IntV 0]" 0] by simp
  have h3: "containerCast_valid (TSeq ''vector'' (TClass ''Point3'')) (TSeq ''list'' (TClass ''Point2''))"
    and h4: "value_type (TSeq ''vector'' (TClass ''Point3'')) = Some (TClass ''Point3'')"
    and h5: "value_type (TSeq ''list'' (TClass ''Point2'')) = Some (TClass ''Point2'')"
    by (simp_all add: containerCast_valid_def)
  have h6: "convert point_casts (TClass ''Point3'') (TClass ''Point2'')
      = Inr (returns point2_to_point3)"
    by (simp add: eval_defs point_casts_def native_casts_def)
  have h7: "\<forall>x\<in>set [ObjV [IntV 1, IntV 2], ObjV [IntV 3, IntV 4]].
      \<exists>y. returns point2_to_point3 x = Some (Inr y)"
    by (simp add: returns_def)
  have h8: "array_specialization (TSeq ''list'' (TClass ''Point2''))
      (TSeq ''vector'' (TClass ''Point3'')) = None"
    and h9: "\<not> expressionValid (ValidStaticCast point_casts)
      (TSeq ''list'' (TClass ''Point2'')) (TSeq ''vector'' (TClass ''Point3''))"
    and h10: "expressionValid ValidContainerCast
      (TSeq ''list'' (TClass ''Point2'')) (TSeq ''vector'' (TClass ''Point3''))"
    by (simp_all add: expressionValid_def ValidStaticCast_def ValidContainerCast_def
        containerCast_valid_def void_t_def point_casts_def native_casts_def)
  have h10': "containerCast point_casts
      (TSeq ''list'' (TClass ''Point2'')) (TSeq ''vector'' (TClass ''Point3''))
      = Inr (on_elems (containerCast_body (returns point3_to_point2) (TClass ''Point2'')))"
    by (simp add: eval_defs point_casts_def native_casts_def)
  have h11: "call_convert point_casts TDouble TInt = Inr (returns int_to_double)"
    by (simp add: eval_defs point_casts_def native_casts_def)
  have h12: "\<forall>x\<in>set [IntV 1, IntV 2, IntV 3]. \<exists>y. returns int_to_double x = Some (Inr y)"
    by (simp add: returns_def)
  have h13: "length [IntV 1, IntV 2, IntV 3] = 3" and h14: "(3::nat) < 2 ^ 32"
    by simp_all
  have h15: "array_specialization TInt TDouble = None"
    and h16: "expressionValid (ValidStaticCast point_casts) TInt TDouble"
    and h17: "point_casts TDouble TInt = Some (returns int_to_double)"
    by (simp_all add: expressionValid_def ValidStaticCast_def point_casts_def native_casts_def
        void_t_def)
  show ?thesis
    using conversions_frame_and_size
      [where conv = "returns (\<lambda>v. v)" and con = "[IntV 1]" and ret = "[IntV 0]"
        and f = 0 and t = 0 and con' = "[IntV 1]" and ret' = "[IntV 1]"
        and I = 1 and array = "[IntV 1]"
        and ?ret2.0 = "[IntV 0]" and i = 0 and array' = "[IntV 1]" and ret2' = "[IntV 1]"
        and sc = point_casts
        and T = "TSeq ''vector'' (TClass ''Point3'')" and U = "TSeq ''list'' (TClass ''Point2'')"
        and B = "TClass ''Point3''" and A = "TClass ''Point2''"
        and ?conv3.0 = "returns point2_to_point3"
        and tested = "on_elems (containerCast_body (returns point3_to_point2) (TClass ''Point2''))"
        and c = "[ObjV [IntV 1, IntV 2], ObjV [IntV 3, IntV 4]]"
        and obj = 5 and mem = "\<lambda>a. ObjV []"
        and TE = TDouble and UE = TInt and ?conv4.0 = "returns int_to_double"
        and a = "[IntV 1, IntV 2, IntV 3]" and N = 3
        and From = TInt and To = TDouble and cst = "returns int_to_double"
        and other = "IntV 2"]
      h1 h2 h3 h4 h5 h6 h7 h8 h9 h10 h10' h11 h12 h13 h14 h15 h16 h17
    by (simp add: int_to_double_def returns_def numeral_2_eq_2 numeral_3_eq_3)
qed

subsection \<open>The deferred form\<close>

text \<open>
  C10 (the code departs from it). Claim: for every source value \<open>v\<close> and every target type
  \<open>O\<close> for which a conversion path exists, the deferred form \<open>convert(v)\<close> in a context
  requiring \<open>O\<close> produces what the direct form \<open>convert<O>(v)\<close> produces. The theorem
  evaluates the code where the two differ. For \<open>O\<close> the type of \<open>v\<close> itself the direct
  form is ambiguous between the two function templates called \<open>convert\<close>, for every
  type and program, while the deferred form is well-formed: \<open>int y = convert(x);\<close> for
  \<open>x\<close> holding 7 yields 7. And in an assignment to a sequence container the deferred
  form is ambiguous, for every source and program, while the direct form is
  well-formed: \<open>convert<std::list<Point2>>(v)\<close> for a \<open>std::vector<Point2>\<close> returns the
  element-wise copy, \<open>l = convert(v);\<close> is ill-formed.
\<close>

theorem deferred_convert_differs_from_direct:
  "call_convert sc T T = Inl CompileError \<and>
   call_convert native_casts TInt TInt = Inl CompileError \<and>
   run_deferred (deferred_use native_casts Initialisation TInt TInt) (convert_deferred x)
       (mem(x := IntV 7)) = Some (Inr (IntV 7)) \<and>
   invoke (call_convert point_casts
        (TSeq ''list'' (TClass ''Point2'')) (TSeq ''vector'' (TClass ''Point2'')))
      (ElemsV [ObjV [IntV 1, IntV 2]])
     = Some (Inr (ElemsV [ObjV [IntV 1, IntV 2]])) \<and>
   deferred_use point_casts Assignment
       (TSeq ''vector'' (TClass ''Point2'')) (TSeq ''list'' (TClass ''Point2''))
     = Inl CompileError \<and>
   deferred_use sc Assignment T (TSeq k E) = Inl CompileError"
proof -
  have c: "convert point_casts (TClass ''Point2'') (TClass ''Point2'') = Inr (returns (\<lambda>v. v))"
    by (simp add: eval_defs point_casts_def native_casts_def)
  have v: "containerCast_valid (TSeq ''list'' (TClass ''Point2'')) (TSeq ''vector'' (TClass ''Point2''))"
    by (simp add: containerCast_valid_def)
  have "invoke (containerCast point_casts
        (TSeq ''list'' (TClass ''Point2'')) (TSeq ''vector'' (TClass ''Point2'')))
      (ElemsV [ObjV [IntV 1, IntV 2]])
     = Some (Inr (ElemsV (map (\<lambda>v. v) [ObjV [IntV 1, IntV 2]])))"
    by (rule containerCast_returns [OF v _ _ c]) (simp_all add: returns_def)
  moreover have "containerCast point_casts
        (TSeq ''vector'' (TClass ''Point2'')) (TSeq ''list'' (TClass ''Point2''))
      = Inr (on_elems (containerCast_body (returns (\<lambda>v. v)) (TClass ''Point2'')))"
    using c by (simp add: containerCast.simps containerCast_valid_def)
  then have "call_convert point_casts
        (TSeq ''list'' (TClass ''Point2'')) (TSeq ''vector'' (TClass ''Point2''))
      = containerCast point_casts
        (TSeq ''list'' (TClass ''Point2'')) (TSeq ''vector'' (TClass ''Point2''))"
    by (simp add: call_convert.simps convert.simps Converter_call.simps
        explicit_overload_chosen_def expressionValid_def ValidStaticCast_def
        ValidContainerCast_def containerCast_valid_def void_t_def point_casts_def
        native_casts_def)
  moreover have "run_deferred (deferred_use native_casts Initialisation TInt TInt)
      (convert_deferred x) (mem(x := IntV 7)) = Some (Inr (IntV 7))"
    by (simp add: deferred_use_def AutoCastable_operator_convert convert.simps
        Converter_call.simps expressionValid_def ValidStaticCast_def void_t_def
        native_casts_def invoke_def returns_def)
  ultimately show ?thesis
    by (simp add: call_convert_same_type deferred_use_def)
qed

subsection \<open>Reference iteration\<close>

text \<open>
  C2 (the code departs from it). Claim: for an iterator that yields a pointer \<open>P*\<close>,
  \<open>operator*\<close> of the reference iterator returns a reference \<open>P&\<close> to the pointee, so
  iterating the view yields the pointees themselves. The theorem evaluates the code:
  for the iterator of a standard container of \<open>int*\<close> (\<open>decltype(*T{})\<close> is \<open>int*&\<close>) the
  declared return type is \<open>remove_pointer<int*&>::type\<close>, that is \<open>int*&\<close>, and returning
  the \<open>int\<close> lvalue is ill-formed; for an iterator that yields \<open>int*\<close> by value the
  return type is \<open>int\<close> and the pointee is copied; for no \<open>D\<close> is a reference returned.
\<close>

theorem referenceIterator_operator_star_never_reference:
  "referenceIterator_operator_star (LRef (Ptr (Named ''int''))) p mem = Inl CompileError \<and>
   referenceIterator_operator_star (Ptr (Named ''int'')) p mem = Inr (Copy (mem p)) \<and>
   referenceIterator_operator_star D p mem \<noteq> Inr (Reference q)"
proof -
  have "referenceIterator_operator_star D p mem \<noteq> Inr (Reference q)"
    by (cases D rule: indirection.cases)
       (auto simp: referenceIterator_operator_star_def return_lvalue_def operator_star_type_def
          ctype_neq)
  then show ?thesis
    by (simp add: referenceIterator_operator_star_def return_lvalue_def operator_star_type_def)
qed

text \<open>
  C3 (the code departs from it). Claim: the non-const \<open>begin()\<close> and \<open>end()\<close> of the
  collection wrapper drop the value of the forwarded call, so they do not yield the
  forwarded iterator; the const overloads do return the forwarded iterator. The theorem
  evaluates the code. The non-const overloads return nothing (control flows off the
  end), for every wrapped collection: that half holds. The const overloads, for a
  wrapped \<open>std::vector<int*>\<close>, are ill-formed: \<open>object_->begin()\<close> is the vector's
  \<open>iterator\<close>, and the declared return type wraps its \<open>const_iterator\<close>. \<open>cbegin()\<close> and
  \<open>cend()\<close>, which forward to \<open>object_->cbegin()\<close> and \<open>object_->cend()\<close>, do return the
  forwarded iterator for that collection, and so do the const overloads where the
  wrapped collection type is itself const.
\<close>

theorem referenceIteration_const_begin_end_ill_formed:
  "referenceIteration_begin C self heap = Inl NoReturn \<and>
   referenceIteration_end C self heap = Inl NoReturn \<and>
   referenceIteration_begin_const vector_of_pointers self heap = Inl CompileError \<and>
   referenceIteration_end_const vector_of_pointers self heap = Inl CompileError \<and>
   referenceIteration_cbegin vector_of_pointers self heap
     = Inr (makeReferenceIterator (Iter (referenceIteration.object self) 0)) \<and>
   referenceIteration_cend vector_of_pointers self heap
     = Inr (makeReferenceIterator
         (Iter (referenceIteration.object self) (length (heap (referenceIteration.object self))))) \<and>
   referenceIteration_begin_const const_vector_of_pointers self heap
     = Inr (makeReferenceIterator (Iter (referenceIteration.object self) 0)) \<and>
   referenceIteration_end_const const_vector_of_pointers self heap
     = Inr (makeReferenceIterator
         (Iter (referenceIteration.object self) (length (heap (referenceIteration.object self)))))"
  by (simp add: referenceIteration_begin_def referenceIteration_end_def
      referenceIteration_begin_const_def referenceIteration_end_const_def
      referenceIteration_cbegin_def referenceIteration_cend_def
      return_iterator_def initialises_def const_iterator_type_def
      vector_of_pointers_def const_vector_of_pointers_def
      coll_begin_def coll_end_def coll_cbegin_def coll_cend_def makeReferenceIterator_def)

text \<open>
  C9 (the code departs from it). Claim: \<open>makeReferenceIteration\<close> applied to a
  collection returns a view of it. The theorem evaluates the code for every collection
  type \<open>T\<close>: the declared return type is \<open>referenceIterator<T>\<close>, not the view type; the
  \<open>const T\<close> lvalue \<open>obj\<close> is handed to a constructor taking \<open>T&\<close>, which binds it only
  for a \<open>T\<close> that is const itself (given explicitly; a deduced \<open>T\<close> is not); and a
  \<open>referenceIteration<T>\<close> is returned as a \<open>referenceIterator<T>\<close>, so the body is
  ill-formed.
\<close>

theorem makeReferenceIteration_ill_formed:
  "makeReferenceIteration_type T \<noteq> ReferenceIteration T \<and>
   binds_reference (LRef T) (add_const T) = is_const T \<and>
   \<not> initialises (makeReferenceIteration_type T) (ReferenceIteration T) \<and>
   makeReferenceIteration T obj = Inl CompileError"
proof -
  have "binds_reference (LRef T) (add_const T) = is_const T"
    using ctype_neq(4) [of T] by (cases T) (simp_all add: binds_reference_def)
  then show ?thesis
    using ctype_neq(5) [of T]
    by (auto simp: makeReferenceIteration_def makeReferenceIteration_type_def initialises_def)
qed

end
